theory Spec2Isabelle
  imports Main
begin

section \<open>Python values and errors\<close>

text \<open>
  Every exception the modelled code can raise is a value. \<open>KeyError\<close> carries the
  key that was looked up (\<open>None\<close> when the key was Python's \<open>None\<close>);
  \<open>Exception\<close> carries the message of a bare \<^verbatim>\<open>raise Exception(msg)\<close>.
\<close>

datatype error =
    KeyError "string option"
  | IndexError
  | AttributeError
  | TypeError
  | ValueError
  | Exception string

section \<open>The model classes\<close>

text \<open>
  The module \<^verbatim>\<open>model\<close> is not part of the sources at hand. The writer reads
  \<^verbatim>\<open>name\<close> of a link and \<^verbatim>\<open>parent\<close>, \<^verbatim>\<open>child\<close> of a joint, and assigns
  \<^verbatim>\<open>name\<close> and \<^verbatim>\<open>jointType\<close> of a joint; the reader assigns the other
  attributes of a joint and those of a shape. A link is an extensible record, so
  that whatever else a \<^verbatim>\<open>LinkModel\<close> carries travels with it untouched.
  \<^verbatim>\<open>parent\<close> and \<^verbatim>\<open>child\<close> are the text of an XML element, which is
  \<^verbatim>\<open>None\<close> for an empty element, hence \<open>string option\<close>.
\<close>

record link =
  name :: string

text \<open>
  Modelled from the spec: the constants \<^verbatim>\<open>J_FIXED\<close>, \<^verbatim>\<open>J_REVOLUTE\<close>,
  \<^verbatim>\<open>J_PRISMATIC\<close>, \<^verbatim>\<open>J_SCREW\<close> of the absent class \<^verbatim>\<open>model.JointModel\<close>,
  the four values of the joint-type enumeration.
\<close>

datatype jointtype = J_FIXED | J_REVOLUTE | J_PRISMATIC | J_SCREW

text \<open>
  The attribute \<^verbatim>\<open>jointType\<close> holds one of these constants when the SDF reader
  assigned it, and the Python string \<^verbatim>\<open>"fixed"\<close> when the VRML writer did.
\<close>

datatype jtval = Const jointtype | Literal string

text \<open>
  The values an attribute of a joint or shape may hold: \<^verbatim>\<open>None\<close>, a \<^verbatim>\<open>str\<close>,
  a \<^verbatim>\<open>float\<close>, or a sequence of them (a Python list or a numpy array). The
  type \<open>'f\<close> stands for Python's \<^verbatim>\<open>float\<close>; the code only parses and stores
  floats, it does no arithmetic on them.
\<close>

datatype 'f pyval = PNone | PStr string | PFloat 'f | PList "'f pyval list"

text \<open>
  Modelled from the spec: the constants \<^verbatim>\<open>SP_MESH\<close>, \<^verbatim>\<open>SP_BOX\<close>,
  \<^verbatim>\<open>SP_CYLINDER\<close>, \<^verbatim>\<open>SP_SPHERE\<close> of the absent class \<^verbatim>\<open>model.ShapeModel\<close>,
  and the classes \<^verbatim>\<open>BoxData\<close> (\<^verbatim>\<open>x\<close>, \<^verbatim>\<open>y\<close>, \<^verbatim>\<open>z\<close>), \<^verbatim>\<open>CylinderData\<close>
  (\<^verbatim>\<open>radius\<close>, \<^verbatim>\<open>height\<close>) and \<^verbatim>\<open>SphereData\<close> (\<^verbatim>\<open>radius\<close>); the data of a
  mesh is what the mesh reader returned.
\<close>

datatype shapetype = SP_MESH | SP_BOX | SP_CYLINDER | SP_SPHERE

datatype ('f, 'm) shapedata =
    MeshData 'm
  | BoxData 'f 'f 'f
  | CylinderData 'f 'f
  | SphereData 'f

text \<open>
  A \<^verbatim>\<open>ShapeModel\<close>. \<^verbatim>\<open>shapeType\<close> and \<^verbatim>\<open>data\<close> are assigned only when the
  geometry has a child, hence the options.
\<close>

record ('f, 'm) shape =
  name :: string
  trans :: "'f pyval"
  rot :: "'f pyval"
  shapeType :: "shapetype option"
  data :: "('f, 'm) shapedata option"

record 'f joint =
  name :: string
  jointType :: jtval
  trans :: "'f pyval"
  rot :: "'f pyval"
  axis :: "'f pyval"
  damping :: "'f pyval"
  friction :: "'f pyval"
  limit :: "'f pyval"
  parent :: "string option"
  child :: "string option"

record ('a, 'f) BodyModel =
  name :: string
  links :: "'a link_scheme list"
  joints :: "'f joint list"

section \<open>VRML writer (\<^verbatim>\<open>vrml.py\<close>)\<close>

text \<open>
  The writer's only attribute is \<^verbatim>\<open>self._linkmap\<close>, a dict from link names to
  links, created empty by \<^verbatim>\<open>__init__\<close>.
\<close>

record 'a VRMLWriter =
  linkmap :: "string \<rightharpoonup> 'a link_scheme"

definition init :: "'a VRMLWriter" where
  "init = \<lparr>linkmap = Map.empty\<rparr>"

text \<open>
  \<^verbatim>\<open>self._linkmap[k]\<close>: the keys stored are link names, so a lookup of \<^verbatim>\<open>None\<close>
  or of a name that is not stored raises \<^verbatim>\<open>KeyError\<close>.
\<close>

definition getitem :: "(string \<rightharpoonup> 'l) \<Rightarrow> string option \<Rightarrow> error + 'l" where
  "getitem d k =
     (case k of
        None \<Rightarrow> Inl (KeyError None)
      | Some s \<Rightarrow> (case d s of None \<Rightarrow> Inl (KeyError (Some s)) | Some v \<Rightarrow> Inr v))"

text \<open>
  The second argument of \<^verbatim>\<open>findchildren\<close> and \<^verbatim>\<open>convertchildren\<close> is untyped in
  the source: \<^verbatim>\<open>write\<close> passes a link name (a key of the dict of \<^verbatim>\<open>findroot\<close>),
  the recursive call of \<^verbatim>\<open>convertchildren\<close> passes \<^verbatim>\<open>nlink\<close>, a link object.
\<close>

datatype 'l pyref = Name "string option" | LinkObj 'l

text \<open>
  Modelled from the spec: \<^verbatim>\<open>j.parent == linkname\<close> where \<^verbatim>\<open>linkname\<close> is an
  instance of the absent class \<^verbatim>\<open>model.LinkModel\<close>. The model classes are pure value
  types with no behaviour beyond construction, so the class defines no comparison
  and Python's \<^verbatim>\<open>==\<close> between a \<^verbatim>\<open>str\<close> (or \<^verbatim>\<open>None\<close>) and a link object is
  \<^verbatim>\<open>False\<close>.
\<close>

fun py_eq :: "string option \<Rightarrow> 'l pyref \<Rightarrow> bool" where
  "py_eq p (Name n) = (p = n)"
| "py_eq p (LinkObj l) = False"

definition findchildren :: "('a, 'f) BodyModel \<Rightarrow> 'l pyref \<Rightarrow> 'f joint list" where
  "findchildren mdata linkname =
     fold (\<lambda>j children. if py_eq (parent j) linkname then children @ [j] else children)
       (joints mdata) []"

text \<open>
  The dict of \<^verbatim>\<open>findroot\<close>, as the list of its items in insertion order.
  \<^verbatim>\<open>d[k] = v\<close> replaces the value of a key already present and appends a new key;
  \<^verbatim>\<open>del d[k]\<close> inside \<^verbatim>\<open>try ... except KeyError: pass\<close> removes the key when it
  is present and does nothing otherwise. \<^verbatim>\<open>d.keys()\<close> is a list (the source is
  Python 2). Python 2 leaves the order of that list to the implementation; the
  model takes insertion order.
\<close>

fun setitem :: "('k \<times> 'v) list \<Rightarrow> 'k \<Rightarrow> 'v \<Rightarrow> ('k \<times> 'v) list" where
  "setitem [] k v = [(k, v)]"
| "setitem ((k', v') # d) k v = (if k' = k then (k, v) # d else (k', v') # setitem d k v)"

fun delitem_pass :: "('k \<times> 'v) list \<Rightarrow> 'k \<Rightarrow> ('k \<times> 'v) list" where
  "delitem_pass [] k = []"
| "delitem_pass ((k', v') # d) k = (if k' = k then d else (k', v') # delitem_pass d k)"

definition keys :: "('k \<times> 'v) list \<Rightarrow> 'k list" where
  "keys d = map fst d"

definition findroot :: "('a, 'f) BodyModel \<Rightarrow> string option list" where
  "findroot mdata =
     (let joints1 = fold (\<lambda>j d. setitem d (parent j) (1::nat)) (joints mdata) [];
          joints2 = fold (\<lambda>j d. delitem_pass d (child j)) (joints mdata) joints1
      in keys joints2)"

text \<open>
  The dict \<^verbatim>\<open>nmodel\<close>: the values of its keys \<^verbatim>\<open>'joint'\<close>, \<^verbatim>\<open>'link'\<close> and
  \<^verbatim>\<open>'children'\<close>, in this order.
\<close>

datatype ('j, 'l) nmodel = NModel 'j 'l "('j, 'l) nmodel list"

lemma fold_keep:
  "fold (\<lambda>j cs. if py_eq (parent j) (LinkObj l) then cs @ [j] else cs) js acc = acc"
  by (induction js arbitrary: acc) simp_all

lemma findchildren_LinkObj: "findchildren mdata (LinkObj l) = []"
  unfolding findchildren_def by (rule fold_keep)

text \<open>
  \<^verbatim>\<open>convertchildren\<close>, with its \<^verbatim>\<open>for\<close> loop as \<open>convertchildren_loop\<close> over the
  joints still to visit and the list \<^verbatim>\<open>children\<close> built so far. The recursive call
  receives \<^verbatim>\<open>nlink\<close>, the link object, as the source has it.
\<close>

function convertchildren ::
    "(string \<rightharpoonup> 'a link_scheme) \<Rightarrow> ('a, 'f) BodyModel \<Rightarrow> 'a link_scheme pyref
      \<Rightarrow> error + ('f joint, 'a link_scheme) nmodel list"
  and convertchildren_loop ::
    "(string \<rightharpoonup> 'a link_scheme) \<Rightarrow> ('a, 'f) BodyModel \<Rightarrow> 'f joint list
      \<Rightarrow> ('f joint, 'a link_scheme) nmodel list
      \<Rightarrow> error + ('f joint, 'a link_scheme) nmodel list"
where
  "convertchildren lm mdata linkname =
     convertchildren_loop lm mdata (findchildren mdata linkname) []"
| "convertchildren_loop lm mdata [] children = Inr children"
| "convertchildren_loop lm mdata (cjoint # rest) children =
     (case getitem lm (child cjoint) of
        Inl e \<Rightarrow> Inl e
      | Inr nlink \<Rightarrow>
          (case convertchildren lm mdata (LinkObj nlink) of
             Inl e \<Rightarrow> Inl e
           | Inr cs \<Rightarrow> convertchildren_loop lm mdata rest (children @ [NModel cjoint nlink cs])))"
  by pat_completeness auto
termination
  by (relation "measure (\<lambda>x. case x of
         Inl (lm, mdata, linkname) \<Rightarrow> 2 * length (findchildren mdata linkname) + 2
       | Inr (lm, mdata, js, children) \<Rightarrow> 2 * length js + 1)")
     (simp_all add: findchildren_LinkObj)

text \<open>
  \<^verbatim>\<open>VRMLWriter.write\<close>, up to the data structure handed to the template.
  \<open>JointModel0\<close> is the object the absent constructor \<^verbatim>\<open>model.JointModel()\<close>
  returns. The result is the writer after the call and either the exception raised
  or the dict \<^verbatim>\<open>nmodel\<close>; rendering it with the template and writing the file
  are left out, so the file name is no argument. The lookup of \<^verbatim>\<open>root\<close> raises
  \<^verbatim>\<open>KeyError\<close> for \<^verbatim>\<open>None\<close> as for any key that is not stored; past it
  \<^verbatim>\<open>root\<close> is a string \<open>r\<close>.
\<close>

definition write_vrml ::
    "'f joint \<Rightarrow> 'a VRMLWriter \<Rightarrow> ('a, 'f) BodyModel
      \<Rightarrow> 'a VRMLWriter \<times> (error + ('f joint, 'a link_scheme) nmodel)" where
  "write_vrml JointModel0 self mdata =
     (let self1 = self\<lparr>linkmap := fold (\<lambda>m lm. lm(link.name m \<mapsto> m)) (links mdata) (linkmap self)\<rparr>
      in (self1,
          case findroot mdata of
            [] \<Rightarrow> Inl IndexError
          | root # _ \<Rightarrow>
              (case root of
                 None \<Rightarrow> Inl (KeyError None)
               | Some r \<Rightarrow>
                   (case getitem (linkmap self1) root of
                      Inl e \<Rightarrow> Inl e
                    | Inr rootlink \<Rightarrow>
                        (let rootjoint = JointModel0\<lparr>joint.name := r, jointType := Literal ''fixed''\<rparr>
                         in case convertchildren (linkmap self1) mdata (Name root) of
                              Inl e \<Rightarrow> Inl e
                            | Inr cs \<Rightarrow> Inr (NModel rootjoint rootlink cs))))))"

section \<open>SDF reader (\<^verbatim>\<open>sdf.py\<close>)\<close>

subsection \<open>The document and the collaborators\<close>

text \<open>
  An element of the parsed document, as \<^verbatim>\<open>lxml\<close> gives it: its tag, its
  attributes, its text (\<^verbatim>\<open>None\<close> for an element without text) and its children
  in document order.
\<close>

datatype element = Element (tag: string) (attrib: "(string \<times> string) list")
  (etext: "string option") (getchildren: "element list")

text \<open>\<^verbatim>\<open>d.find(t)\<close> for a plain tag: the first child with that tag, or \<^verbatim>\<open>None\<close>.\<close>

definition find_tag :: "element \<Rightarrow> string \<Rightarrow> element option" where
  "find_tag d t = List.find (\<lambda>c. tag c = t) (getchildren d)"

text \<open>\<^verbatim>\<open>d.attrib[k]\<close>, which raises \<^verbatim>\<open>KeyError\<close> for a missing attribute.\<close>

definition attrib_get :: "element \<Rightarrow> string \<Rightarrow> error + string" where
  "attrib_get d k = (case map_of (attrib d) k of None \<Rightarrow> Inl (KeyError (Some k)) | Some v \<Rightarrow> Inr v)"

text \<open>
  What the reader takes from outside the two source files: the builtin
  \<^verbatim>\<open>float\<close> on a string (\<open>None\<close> where it raises \<^verbatim>\<open>ValueError\<close>), the float
  \<^verbatim>\<open>0.0\<close> of \<^verbatim>\<open>numpy.zeros\<close>, \<^verbatim>\<open>tf.quaternion_from_euler\<close>,
  \<^verbatim>\<open>utils.resolveFile\<close>, and the \<^verbatim>\<open>read\<close> methods of \<^verbatim>\<open>collada.ColladaReader\<close>
  and \<^verbatim>\<open>stl.STLReader\<close>, which return mesh data of a type \<open>'m\<close>.
\<close>

record ('f, 'm) env =
  float :: "string \<Rightarrow> 'f option"
  zero :: 'f
  quaternion_from_euler :: "'f \<Rightarrow> 'f \<Rightarrow> 'f \<Rightarrow> 'f list"
  resolveFile :: "string option \<Rightarrow> error + string"
  ColladaReader_read :: "string \<Rightarrow> error + 'm"
  STLReader_read :: "string \<Rightarrow> error + 'm"

text \<open>Sequencing: the first exception ends the computation.\<close>

definition bindE :: "error + 'a \<Rightarrow> ('a \<Rightarrow> error + 'b) \<Rightarrow> error + 'b" where
  "bindE x f = (case x of Inl e \<Rightarrow> Inl e | Inr v \<Rightarrow> f v)"

text \<open>
  \<^verbatim>\<open>d.find(t).text\<close>: \<^verbatim>\<open>AttributeError\<close> when there is no such child.
\<close>

definition find_text :: "element \<Rightarrow> string \<Rightarrow> error + string option" where
  "find_text d t = (case find_tag d t of None \<Rightarrow> Inl AttributeError | Some c \<Rightarrow> Inr (etext c))"

text \<open>
  \<^verbatim>\<open>float(x)\<close> for the text of an element: \<^verbatim>\<open>TypeError\<close> on \<^verbatim>\<open>None\<close>,
  \<^verbatim>\<open>ValueError\<close> on a string that is no float.
\<close>

definition float_of :: "('f, 'm) env \<Rightarrow> string option \<Rightarrow> error + 'f" where
  "float_of E x =
     (case x of
        None \<Rightarrow> Inl TypeError
      | Some s \<Rightarrow> (case float E s of None \<Rightarrow> Inl ValueError | Some v \<Rightarrow> Inr v))"

text \<open>\<^verbatim>\<open>s.split(' ')\<close>: the pieces between single spaces, empty pieces included.\<close>

fun split :: "char \<Rightarrow> string \<Rightarrow> string list" where
  "split sep [] = [[]]"
| "split sep (c # cs) =
     (if c = sep then [] # split sep cs
      else (case split sep cs of w # ws \<Rightarrow> (c # w) # ws | [] \<Rightarrow> [[c]]))"

text \<open>\<^verbatim>\<open>[float(v) for v in ws]\<close>, left to right.\<close>

fun floats :: "('f, 'm) env \<Rightarrow> string list \<Rightarrow> error + 'f list" where
  "floats E [] = Inr []"
| "floats E (w # ws) =
     bindE (float_of E (Some w)) (\<lambda>v. bindE (floats E ws) (\<lambda>vs. Inr (v # vs)))"

text \<open>
  \<^verbatim>\<open>[float(v) for v in x.split(' ')]\<close> for the text \<open>x\<close> of an element:
  \<^verbatim>\<open>AttributeError\<close> when the text is \<^verbatim>\<open>None\<close>.
\<close>

definition split_floats :: "('f, 'm) env \<Rightarrow> string option \<Rightarrow> error + 'f list" where
  "split_floats E x =
     (case x of None \<Rightarrow> Inl AttributeError | Some s \<Rightarrow> floats E (split CHR '' '' s))"

text \<open>The text of an element as the value of an attribute.\<close>

definition text_val :: "string option \<Rightarrow> 'f pyval" where
  "text_val x = (case x of None \<Rightarrow> PNone | Some s \<Rightarrow> PStr s)"

subsection \<open>\<^verbatim>\<open>readPose\<close>, \<^verbatim>\<open>readJointType\<close>, \<^verbatim>\<open>readInertia\<close>\<close>

text \<open>
  \<^verbatim>\<open>readPose\<close> assigns \<^verbatim>\<open>m.trans\<close> and \<^verbatim>\<open>m.rot\<close> of whatever object it is given;
  the model returns the two values and the caller stores them. \<^verbatim>\<open>pose[0:3]\<close> is a
  slice, \<^verbatim>\<open>pose[3]\<close> to \<^verbatim>\<open>pose[5]\<close> raise \<^verbatim>\<open>IndexError\<close> on a shorter array.
\<close>

definition readPose :: "('f, 'm) env \<Rightarrow> element \<Rightarrow> error + ('f pyval \<times> 'f pyval)" where
  "readPose E doc =
     bindE (split_floats E (etext doc)) (\<lambda>pose.
       if length pose < 6 then Inl IndexError
       else Inr (PList (map PFloat (take 3 pose)),
                 PList (map PFloat (quaternion_from_euler E (pose ! 3) (pose ! 4) (pose ! 5)))))"

definition readJointType :: "string \<Rightarrow> error + jointtype" where
  "readJointType d =
     (if d = ''fixed'' then Inr J_FIXED
      else if d = ''revolute'' then Inr J_REVOLUTE
      else if d = ''prismatic'' then Inr J_PRISMATIC
      else if d = ''screw'' then Inr J_SCREW
      else Inl (Exception (''unsupported joint type: '' @ d)))"

text \<open>
  The 3 by 3 array of \<^verbatim>\<open>numpy.zeros((3, 3))\<close> as a list of rows, and the
  assignment \<^verbatim>\<open>a[i, j] = v\<close>; the indices of \<^verbatim>\<open>readInertia\<close> are constants within
  range.
\<close>

definition zeros :: "('f, 'm) env \<Rightarrow> nat \<Rightarrow> nat \<Rightarrow> 'f list list" where
  "zeros E r c = replicate r (replicate c (zero E))"

definition setitem2 :: "'f list list \<Rightarrow> nat \<Rightarrow> nat \<Rightarrow> 'f \<Rightarrow> 'f list list" where
  "setitem2 a i j v = a[i := (a ! i)[j := v]]"

text \<open>\<^verbatim>\<open>float(d.find(t).text)\<close>.\<close>

definition find_float :: "('f, 'm) env \<Rightarrow> element \<Rightarrow> string \<Rightarrow> error + 'f" where
  "find_float E d t = bindE (find_text d t) (float_of E)"

text \<open>
  \<^verbatim>\<open>readInertia\<close>. A chained assignment \<^verbatim>\<open>a[0, 1] = a[1, 0] = v\<close> evaluates
  \<open>v\<close> once and assigns the targets from left to right.
\<close>

definition readInertia :: "('f, 'm) env \<Rightarrow> element \<Rightarrow> error + 'f list list" where
  "readInertia E d =
     (let inertia = zeros E 3 3 in
      bindE (find_float E d ''ixx'') (\<lambda>v. let inertia = setitem2 inertia 0 0 v in
      bindE (find_float E d ''ixy'') (\<lambda>v. let inertia = setitem2 (setitem2 inertia 0 1 v) 1 0 v in
      bindE (find_float E d ''ixz'') (\<lambda>v. let inertia = setitem2 (setitem2 inertia 0 2 v) 2 0 v in
      bindE (find_float E d ''iyy'') (\<lambda>v. let inertia = setitem2 inertia 1 1 v in
      bindE (find_float E d ''iyz'') (\<lambda>v. let inertia = setitem2 (setitem2 inertia 1 2 v) 2 1 v in
      bindE (find_float E d ''izz'') (\<lambda>v. let inertia = setitem2 inertia 2 2 v in
      Inr inertia)))))))"

subsection \<open>\<^verbatim>\<open>readShape\<close>\<close>

text \<open>
  \<^verbatim>\<open>p.rfind(c)\<close>: the last index of \<open>c\<close> in \<open>p\<close>, or \<open>-1\<close>. \<open>rfind_from\<close>
  scans \<open>p\<close> from index \<open>i\<close> with the last index found so far.
\<close>

fun rfind_from :: "char \<Rightarrow> string \<Rightarrow> nat \<Rightarrow> int \<Rightarrow> int" where
  "rfind_from c [] i found = found"
| "rfind_from c (x # xs) i found = rfind_from c xs (Suc i) (if x = c then int i else found)"

definition rfind :: "string \<Rightarrow> char \<Rightarrow> int" where
  "rfind p c = rfind_from c p 0 (- 1)"

text \<open>
  \<^verbatim>\<open>os.path.splitext\<close> of the standard library, on POSIX: the extension starts at
  the last dot, when that dot is after the last slash and some character between the
  slash and the dot is not a dot.
\<close>

definition splitext :: "string \<Rightarrow> string \<times> string" where
  "splitext p =
     (let sepIndex = rfind p CHR ''/'';
          dotIndex = rfind p CHR ''.''
      in if dotIndex > sepIndex
            \<and> list_ex (\<lambda>c. c \<noteq> CHR ''.'') (drop (nat (sepIndex + 1)) (take (nat dotIndex) p))
         then (take (nat dotIndex) p, drop (nat dotIndex) p)
         else (p, []))"

text \<open>
  \<^verbatim>\<open>s.lower()\<close> of a Python 2 \<^verbatim>\<open>str\<close>: the letters A to Z become a to z, every
  other character stays.
\<close>

definition lower_char :: "char \<Rightarrow> char" where
  "lower_char c =
     (case map_of (zip ''ABCDEFGHIJKLMNOPQRSTUVWXYZ'' ''abcdefghijklmnopqrstuvwxyz'') c of
        None \<Rightarrow> c
      | Some l \<Rightarrow> l)"

definition lower :: "string \<Rightarrow> string" where
  "lower s = map lower_char s"

text \<open>
  The body of the loop of \<^verbatim>\<open>readShape\<close> over the children of the geometry, for the
  shape \<open>m\<close> built so far and one child \<open>g\<close>. \<^verbatim>\<open>boxsize[0]\<close> to \<^verbatim>\<open>boxsize[2]\<close>
  raise \<^verbatim>\<open>IndexError\<close> on a shorter list.
\<close>

definition readShape_geometry ::
    "('f, 'm) env \<Rightarrow> ('f, 'm) shape \<Rightarrow> element \<Rightarrow> error + ('f, 'm) shape" where
  "readShape_geometry E m g =
     (if tag g = ''mesh'' then
        (let m = m\<lparr>shapeType := Some SP_MESH\<rparr> in
         bindE (find_text g ''uri'') (\<lambda>uri.
         bindE (resolveFile E uri) (\<lambda>filename.
         let fileext = lower (snd (splitext filename)) in
         bindE (if fileext = ''.dae'' then Inr (ColladaReader_read E)
                else if fileext = ''.stl'' then Inr (STLReader_read E)
                else Inl (Exception (''unsupported mesh format: '' @ fileext))) (\<lambda>reader_read.
         bindE (reader_read filename) (\<lambda>d. Inr (m\<lparr>data := Some (MeshData d)\<rparr>))))))
      else if tag g = ''box'' then
        (let m = m\<lparr>shapeType := Some SP_BOX\<rparr> in
         bindE (find_text g ''size'') (\<lambda>size_text.
         bindE (split_floats E size_text) (\<lambda>boxsize.
         if length boxsize < 3 then Inl IndexError
         else Inr (m\<lparr>data := Some (BoxData (boxsize ! 0) (boxsize ! 1) (boxsize ! 2))\<rparr>))))
      else if tag g = ''cylinder'' then
        (let m = m\<lparr>shapeType := Some SP_CYLINDER\<rparr> in
         bindE (find_float E g ''radius'') (\<lambda>radius.
         bindE (find_float E g ''length'') (\<lambda>height.
         Inr (m\<lparr>data := Some (CylinderData radius height)\<rparr>))))
      else if tag g = ''sphere'' then
        (let m = m\<lparr>shapeType := Some SP_SPHERE\<rparr> in
         bindE (find_float E g ''radius'') (\<lambda>radius.
         Inr (m\<lparr>data := Some (SphereData radius)\<rparr>)))
      else Inl (Exception (''unsupported shape type: '' @ tag g)))"

fun readShape_loop ::
    "('f, 'm) env \<Rightarrow> ('f, 'm) shape \<Rightarrow> element list \<Rightarrow> error + ('f, 'm) shape" where
  "readShape_loop E m [] = Inr m"
| "readShape_loop E m (g # gs) = bindE (readShape_geometry E m g) (\<lambda>m. readShape_loop E m gs)"

text \<open>
  \<^verbatim>\<open>readShape\<close>. \<open>ShapeModel0\<close> is the object the absent constructor
  \<^verbatim>\<open>model.ShapeModel()\<close> returns.
\<close>

definition readShape ::
    "('f, 'm) env \<Rightarrow> ('f, 'm) shape \<Rightarrow> element \<Rightarrow> error + ('f, 'm) shape" where
  "readShape E ShapeModel0 d =
     bindE (attrib_get d ''name'') (\<lambda>n.
     let m = ShapeModel0\<lparr>shape.name := n\<rparr> in
     bindE (case find_tag d ''pose'' of
              None \<Rightarrow> Inr m
            | Some pose \<Rightarrow>
                bindE (readPose E pose) (\<lambda>(t, r). Inr (m\<lparr>shape.trans := t, shape.rot := r\<rparr>)))
       (\<lambda>m.
     case find_tag d ''geometry'' of
       None \<Rightarrow> Inl AttributeError
     | Some geometry \<Rightarrow> readShape_loop E m (getchildren geometry)))"

subsection \<open>The joints of \<^verbatim>\<open>read\<close>\<close>

text \<open>
  The body of the loop of \<^verbatim>\<open>read\<close> over the joint elements: the joint \<^verbatim>\<open>jm\<close>
  that is appended to \<^verbatim>\<open>bm.joints\<close> for the element \<open>j\<close>. \<open>JointModel0\<close> is the
  object \<^verbatim>\<open>model.JointModel()\<close> returns. The elements \<^verbatim>\<open>axis\<close>, \<^verbatim>\<open>dynamics\<close>
  and \<^verbatim>\<open>limit\<close> of the source are \<open>ax\<close>, \<open>dyn\<close> and \<open>lim\<close> here.
\<close>

definition read_joint :: "('f, 'm) env \<Rightarrow> 'f joint \<Rightarrow> element \<Rightarrow> error + 'f joint" where
  "read_joint E JointModel0 j =
     bindE (attrib_get j ''name'') (\<lambda>n.
     let jm = JointModel0\<lparr>joint.name := n\<rparr> in
     bindE (attrib_get j ''type'') (\<lambda>ty.
     bindE (readJointType ty) (\<lambda>jt.
     let jm = jm\<lparr>jointType := Const jt\<rparr> in
     bindE (case find_tag j ''pose'' of
              None \<Rightarrow> Inr jm
            | Some pose \<Rightarrow>
                bindE (readPose E pose) (\<lambda>(t, r). Inr (jm\<lparr>joint.trans := t, joint.rot := r\<rparr>)))
       (\<lambda>jm.
     bindE (case find_tag j ''axis'' of
              None \<Rightarrow> Inr jm
            | Some ax \<Rightarrow>
                bindE (find_text ax ''xyz'') (\<lambda>xyz_text.
                bindE (split_floats E xyz_text) (\<lambda>xyz.
                let jm = jm\<lparr>axis := PList (map PFloat xyz)\<rparr> in
                bindE (case find_tag ax ''dynamics'' of
                         None \<Rightarrow> Inr jm
                       | Some dyn \<Rightarrow>
                           bindE (find_text dyn ''damping'') (\<lambda>damping_text.
                           let jm = jm\<lparr>damping := text_val damping_text\<rparr> in
                           bindE (find_text dyn ''friction'') (\<lambda>friction_text.
                           Inr (jm\<lparr>friction := text_val friction_text\<rparr>))))
                  (\<lambda>jm.
                case find_tag ax ''limit'' of
                  None \<Rightarrow> Inr jm
                | Some lim \<Rightarrow>
                    bindE (find_text lim ''upper'') (\<lambda>upper_text.
                    bindE (find_text lim ''lower'') (\<lambda>lower_text.
                    Inr (jm\<lparr>limit := PList [text_val upper_text, text_val lower_text]\<rparr>)))))))
       (\<lambda>jm.
     bindE (find_text j ''parent'') (\<lambda>p.
     let jm = jm\<lparr>parent := p\<rparr> in
     bindE (find_text j ''child'') (\<lambda>c.
     Inr (jm\<lparr>child := c\<rparr>))))))))"

section \<open>Example models\<close>

text \<open>
  Concrete inputs for the examples below: a joint \<open>n\<close> from link \<open>p\<close> to link
  \<open>c\<close> with no other attribute set, and a model with the given link names and
  joints. The examples take integers for floats (\<open>2\<close> for \<^verbatim>\<open>2.0\<close>).
\<close>

definition example_joint :: "string \<Rightarrow> string \<Rightarrow> string \<Rightarrow> int joint" where
  "example_joint n p c =
     \<lparr>joint.name = n, jointType = Const J_REVOLUTE, trans = PNone, rot = PNone, axis = PNone,
      damping = PNone, friction = PNone, limit = PNone, parent = Some p, child = Some c\<rparr>"

definition example_link :: "string \<Rightarrow> link" where
  "example_link n = \<lparr>link.name = n\<rparr>"

definition example_model :: "string list \<Rightarrow> int joint list \<Rightarrow> (unit, int) BodyModel" where
  "example_model ls js =
     \<lparr>BodyModel.name = ''robot'', links = map example_link ls, joints = js\<rparr>"

text \<open>
  A stand-in for the object \<^verbatim>\<open>model.JointModel()\<close> returns, with no attribute set.
\<close>

definition example_JointModel0 :: "int joint" where
  "example_JointModel0 =
     \<lparr>joint.name = [], jointType = Literal [], trans = PNone, rot = PNone, axis = PNone,
      damping = PNone, friction = PNone, limit = PNone, parent = None, child = None\<rparr>"

text \<open>The four links \<open>root\<close>, B, C, D with the joints root to B, B to C, B to D.\<close>

definition tree4 :: "(unit, int) BodyModel" where
  "tree4 = example_model [''root'', ''B'', ''C'', ''D'']
     [example_joint ''j1'' ''root'' ''B'', example_joint ''j2'' ''B'' ''C'',
      example_joint ''j3'' ''B'' ''D'']"

text \<open>Two links that are each other's parent: no root candidate.\<close>

definition cycle2 :: "(unit, int) BodyModel" where
  "cycle2 = example_model [''A'', ''B'']
     [example_joint ''j1'' ''A'' ''B'', example_joint ''j2'' ''B'' ''A'']"

text \<open>Two disjoint chains, A to B and X to Y: two root candidates.\<close>

definition chains2 :: "(unit, int) BodyModel" where
  "chains2 = example_model [''A'', ''B'', ''X'', ''Y'']
     [example_joint ''j1'' ''A'' ''B'', example_joint ''j2'' ''X'' ''Y'']"



text \<open>A joint from A to Z, where Z is no link of the model.\<close>

definition dangling :: "(unit, int) BodyModel" where
  "dangling = example_model [''A''] [example_joint ''j1'' ''A'' ''Z'']"

text \<open>The same joint in a model that has the link Z.\<close>

definition with_Z :: "(unit, int) BodyModel" where
  "with_Z = example_model [''A'', ''Z''] [example_joint ''j1'' ''A'' ''Z'']"

text \<open>
  Collaborators for the examples: \<^verbatim>\<open>float\<close> knows the digits 0 to 6,
  \<^verbatim>\<open>resolveFile\<close> returns the path it is given, and each mesh reader returns its
  name and the file name.
\<close>

definition example_env :: "(int, string) env" where
  "example_env =
     \<lparr>float = map_of [(''0'', 0), (''1'', 1), (''2'', 2), (''3'', 3), (''4'', 4), (''5'', 5),
                       (''6'', 6)],
      zero = 0,
      quaternion_from_euler = (\<lambda>roll pitch yaw. [roll, pitch, yaw, 0]),
      resolveFile = (\<lambda>uri. case uri of None \<Rightarrow> Inl TypeError | Some s \<Rightarrow> Inr s),
      ColladaReader_read = (\<lambda>filename. Inr (''collada '' @ filename)),
      STLReader_read = (\<lambda>filename. Inr (''stl '' @ filename))\<rparr>"

text \<open>An element with a text and nothing else.\<close>

definition leaf :: "string \<Rightarrow> string \<Rightarrow> element" where
  "leaf t x = Element t [] (Some x) []"

text \<open>The inertia block with \<^verbatim>\<open>ixx\<close> = 1, \<^verbatim>\<open>ixy\<close> = 2, ..., \<^verbatim>\<open>izz\<close> = 6.\<close>

definition inertia123456 :: element where
  "inertia123456 = Element ''inertia'' [] None
     [leaf ''ixx'' ''1'', leaf ''ixy'' ''2'', leaf ''ixz'' ''3'',
      leaf ''iyy'' ''4'', leaf ''iyz'' ''5'', leaf ''izz'' ''6'']"

text \<open>
  A revolute joint from A to B about the axis 0 0 1, with damping 2, friction 3 and
  the limits upper 1 and lower 0.
\<close>

definition elbow :: element where
  "elbow = Element ''joint'' [(''name'', ''elbow''), (''type'', ''revolute'')] None
     [Element ''axis'' [] None
        [leaf ''xyz'' ''0 0 1'',
         Element ''dynamics'' [] None [leaf ''damping'' ''2'', leaf ''friction'' ''3''],
         Element ''limit'' [] None [leaf ''upper'' ''1'', leaf ''lower'' ''0'']],
      leaf ''parent'' ''A'', leaf ''child'' ''B'']"

text \<open>A stand-in for the object \<^verbatim>\<open>model.ShapeModel()\<close> returns.\<close>

definition example_ShapeModel0 :: "(int, string) shape" where
  "example_ShapeModel0 =
     \<lparr>shape.name = [], shape.trans = PNone, shape.rot = PNone, shapeType = None, data = None\<rparr>"

text \<open>A mesh geometry child and a visual element around it, for the file \<open>uri\<close>.\<close>

definition mesh_geometry :: "string \<Rightarrow> element" where
  "mesh_geometry uri = Element ''mesh'' [] None [leaf ''uri'' uri]"

definition mesh_visual :: "string \<Rightarrow> element" where
  "mesh_visual uri = Element ''visual'' [(''name'', ''arm'')] None
     [Element ''geometry'' [] None [mesh_geometry uri]]"

lemmas example_defs =
  example_model_def example_joint_def example_link_def example_JointModel0_def

lemmas eval_defs =
  write_vrml_def init_def findroot_def keys_def getitem_def findchildren_def

lemmas sdf_defs =
  bindE_def find_text_def find_tag_def find_float_def float_of_def split_floats_def
  text_val_def attrib_get_def

section \<open>Root finding\<close>

lemma keys_setitem: "set (keys (setitem d k v)) = insert k (set (keys d))"
  by (induction d k v rule: setitem.induct) (auto simp: keys_def)

lemma distinct_setitem: "distinct (keys d) \<Longrightarrow> distinct (keys (setitem d k v))"
proof (induction d k v rule: setitem.induct)
  case (1 k v)
  then show ?case by (simp add: keys_def)
next
  case (2 k' v' d k v)
  have "set (map fst (setitem d k v)) = insert k (set (map fst d))"
    using keys_setitem [of d k v] by (simp add: keys_def)
  with 2 show ?case by (auto simp: keys_def)
qed

lemma keys_delitem_pass:
  "distinct (keys d) \<Longrightarrow> set (keys (delitem_pass d k)) = set (keys d) - {k}"
  by (induction d k rule: delitem_pass.induct) (auto simp: keys_def)

lemma keys_delitem_pass_subset: "set (keys (delitem_pass d k)) \<subseteq> set (keys d)"
  by (induction d k rule: delitem_pass.induct) (auto simp: keys_def)

lemma distinct_delitem_pass: "distinct (keys d) \<Longrightarrow> distinct (keys (delitem_pass d k))"
proof (induction d k rule: delitem_pass.induct)
  case (1 k)
  then show ?case by (simp add: keys_def)
next
  case (2 k' v' d k)
  have "set (map fst (delitem_pass d k)) \<subseteq> set (map fst d)"
    using keys_delitem_pass_subset [of d k] by (simp add: keys_def)
  with 2 show ?case by (auto simp: keys_def)
qed

lemma fold_setitem:
  "distinct (keys d) \<Longrightarrow>
   distinct (keys (fold (\<lambda>j d. setitem d (f j) v) js d)) \<and>
   set (keys (fold (\<lambda>j d. setitem d (f j) v) js d)) = set (keys d) \<union> f ` set js"
  by (induction js arbitrary: d) (simp_all add: keys_setitem distinct_setitem)

lemma fold_delitem_pass:
  "distinct (keys d) \<Longrightarrow>
   distinct (keys (fold (\<lambda>j d. delitem_pass d (f j)) js d)) \<and>
   set (keys (fold (\<lambda>j d. delitem_pass d (f j)) js d)) = set (keys d) - f ` set js"
  by (induction js arbitrary: d) (auto simp: keys_delitem_pass distinct_delitem_pass)

lemma findroot_keys:
  "set (findroot mdata) = parent ` set (joints mdata) - child ` set (joints mdata)"
  "distinct (findroot mdata)"
proof -
  let ?d1 = "fold (\<lambda>j d. setitem d (parent j) (1::nat)) (joints mdata) []"
  have d1: "distinct (keys ?d1)" "set (keys ?d1) = parent ` set (joints mdata)"
    using fold_setitem [of "[]" parent "1::nat" "joints mdata"] by (simp_all add: keys_def)
  have "distinct (keys (fold (\<lambda>j d. delitem_pass d (child j)) (joints mdata) ?d1))"
       "set (keys (fold (\<lambda>j d. delitem_pass d (child j)) (joints mdata) ?d1))
          = parent ` set (joints mdata) - child ` set (joints mdata)"
    using fold_delitem_pass [OF d1(1), of child "joints mdata"] d1(2) by simp_all
  then show "set (findroot mdata) = parent ` set (joints mdata) - child ` set (joints mdata)"
    and "distinct (findroot mdata)"
    by (simp_all add: findroot_def Let_def)
qed


text \<open>
  Claim C4. For every model, \<^verbatim>\<open>findroot\<close> returns exactly the names that are the
  parent of some joint and the child of none: as a set, the parents of the joints
  without the children of the joints, each name once. For the links A, B, C with the
  joints A to B and B to C it returns the single name A.
\<close>

theorem findroot_parents_minus_children:
  "set (findroot mdata) = parent ` set (joints mdata) - child ` set (joints mdata)
   \<and> distinct (findroot mdata)
   \<and> findroot (example_model [''A'', ''B'', ''C'']
        [example_joint ''j1'' ''A'' ''B'', example_joint ''j2'' ''B'' ''C'']) = [Some ''A'']"
proof -
  have "findroot (example_model [''A'', ''B'', ''C'']
        [example_joint ''j1'' ''A'' ''B'', example_joint ''j2'' ''B'' ''C'']) = [Some ''A'']"
    by (simp add: findroot_def example_model_def example_joint_def keys_def)
  then show ?thesis by (simp add: findroot_keys)
qed

section \<open>Tree construction\<close>

lemma getitem_Inl: "getitem d k = Inl e \<longleftrightarrow> e = KeyError k \<and> k \<notin> Some ` dom d"
  by (auto simp: getitem_def split: option.splits)

lemma getitem_Inr: "getitem d k = Inr v \<longleftrightarrow> (\<exists>s. k = Some s \<and> d s = Some v)"
  by (auto simp: getitem_def split: option.splits)


lemma loop_missing:
  "\<exists>j\<in>set js. child j \<notin> Some ` dom lm \<Longrightarrow>
   \<exists>k. convertchildren_loop lm mdata js acc = Inl (KeyError k) \<and> k \<notin> Some ` dom lm"
proof (induction js arbitrary: acc)
  case Nil
  then show ?case by simp
next
  case (Cons j js)
  show ?case
  proof (cases "getitem lm (child j)")
    case (Inl e')
    then have "e' = KeyError (child j)" "child j \<notin> Some ` dom lm"
      by (simp_all add: getitem_Inl)
    with Inl show ?thesis by simp
  next
    case (Inr l)
    then have "child j \<in> Some ` dom lm" by (auto simp: getitem_Inr)
    with Cons.prems have "\<exists>j\<in>set js. child j \<notin> Some ` dom lm" by auto
    from Cons.IH [OF this, of "acc @ [NModel j l []]"] Inr show ?thesis
      by (simp add: findchildren_LinkObj)
  qed
qed

lemma loop_Inr:
  "convertchildren_loop lm mdata js acc = Inr cs \<Longrightarrow>
   \<exists>new. cs = acc @ new
     \<and> list_all2 (\<lambda>j n. \<exists>l. getitem lm (child j) = Inr l \<and> n = NModel j l []) js new"
proof (induction js arbitrary: acc)
  case Nil
  then show ?case by simp
next
  case (Cons j js)
  from Cons.prems obtain l where l: "getitem lm (child j) = Inr l"
    by (cases "getitem lm (child j)") simp_all
  with Cons.prems have "convertchildren_loop lm mdata js (acc @ [NModel j l []]) = Inr cs"
    by (simp add: findchildren_LinkObj)
  from Cons.IH [OF this] obtain new where
    "cs = (acc @ [NModel j l []]) @ new"
    "list_all2 (\<lambda>j n. \<exists>l. getitem lm (child j) = Inr l \<and> n = NModel j l []) js new"
    by blast
  with l show ?case by (intro exI [of _ "NModel j l [] # new"]) simp
qed

text \<open>
  Whatever \<^verbatim>\<open>convertchildren\<close> returns has one node per joint found for its
  argument, in the order of the joints, each with the link stored under the joint's
  child name and with no children of its own.
\<close>

lemma convertchildren_first_level_only:
  "convertchildren lm mdata linkname = Inr cs \<Longrightarrow>
   list_all2 (\<lambda>j n. \<exists>l. getitem lm (child j) = Inr l \<and> n = NModel j l [])
     (findchildren mdata linkname) cs"
  using loop_Inr [of lm mdata "findchildren mdata linkname" "[]" cs] by simp

lemma set_findchildren_acc:
  "set (fold (\<lambda>j cs. if py_eq (parent j) k then cs @ [j] else cs) js acc)
     = set acc \<union> {j \<in> set js. py_eq (parent j) k}"
  by (induction js arbitrary: acc) auto

lemma set_findchildren:
  "set (findchildren mdata (Name n)) = {j \<in> set (joints mdata). parent j = n}"
  using set_findchildren_acc [of "Name n" "joints mdata" "[]"]
  by (simp add: findchildren_def)

lemma dom_fold_links:
  "dom (fold (\<lambda>m lm. lm(link.name m \<mapsto> m)) ls lm0) = dom lm0 \<union> link.name ` set ls"
  by (induction ls arbitrary: lm0) auto

text \<open>
  Claim C1. Tree construction for a link name builds one child node per joint whose
  parent is that name, from the joint's child link, and recurses into each child
  link; for the four links root, B, C, D with the joints root to B, B to C, B to D
  the node of B has the children C and D. The code recurses with the link object
  \<^verbatim>\<open>nlink\<close> where \<^verbatim>\<open>findchildren\<close> compares against names, so no joint ever
  matches below the first level: on this model the node of B has no children.
\<close>

theorem convertchildren_tree4_grandchildren_lost:
  "findroot tree4 = [Some ''root''] \<and>
   snd (write_vrml example_JointModel0 init tree4) =
     Inr (NModel (example_JointModel0\<lparr>joint.name := ''root'', jointType := Literal ''fixed''\<rparr>)
           (example_link ''root'')
           [NModel (example_joint ''j1'' ''root'' ''B'') (example_link ''B'') []])"
  by (simp add: eval_defs tree4_def example_defs)

text \<open>
  Claim C2, as amended. With no root candidate the conversion fails with an unchecked
  \<^verbatim>\<open>IndexError\<close> (there is no \<^verbatim>\<open>NoRootFound\<close>). A single candidate is the whole
  candidate list. Whenever the list is not empty, also when it has several
  candidates, its first key \<open>r\<close> is taken as the root without any failure for
  ambiguity: once the link stored under \<open>r\<close> and the children are found, the root node
  carries that link and a synthetic joint, the default \<^verbatim>\<open>JointModel\<close> with its name
  set to \<open>r\<close> and its \<^verbatim>\<open>jointType\<close> set to the string \<^verbatim>\<open>"fixed"\<close>.
\<close>

theorem write_root_policy:
  "(findroot mdata = [] \<longrightarrow> snd (write_vrml J self mdata) = Inl IndexError) \<and>
   (set (findroot mdata) = {x} \<longrightarrow> findroot mdata = [x]) \<and>
   (findroot mdata = Some r # rest
      \<and> linkmap (fst (write_vrml J self mdata)) r = Some l
      \<and> convertchildren (linkmap (fst (write_vrml J self mdata))) mdata (Name (Some r)) = Inr cs
    \<longrightarrow> snd (write_vrml J self mdata)
          = Inr (NModel (J\<lparr>joint.name := r, jointType := Literal ''fixed''\<rparr>) l cs))"
proof -
  have "findroot mdata = [x]" if "set (findroot mdata) = {x}"
  proof -
    have "distinct (findroot mdata)" by (rule findroot_keys)
    with that show ?thesis
      by (cases "findroot mdata"; cases "tl (findroot mdata)") auto
  qed
  then show ?thesis by (simp add: write_vrml_def Let_def getitem_def)
qed

theorem write_root_policy_witness:
  "snd (write_vrml example_JointModel0 init cycle2) = Inl IndexError \<and>
   findroot tree4 = [Some ''root''] \<and>
   snd (write_vrml example_JointModel0 init chains2) =
     Inr (NModel (example_JointModel0\<lparr>joint.name := ''A'', jointType := Literal ''fixed''\<rparr>)
           (example_link ''A'')
           [NModel (example_joint ''j1'' ''A'' ''B'') (example_link ''B'') []])"
proof -
  have h1: "findroot cycle2 = []"
    by (simp add: eval_defs cycle2_def example_defs)
  have h2: "set (findroot tree4) = {Some ''root''}"
    by (simp add: eval_defs tree4_def example_defs)
  have h3: "findroot chains2 = Some ''A'' # [Some ''X'']"
    by (simp add: eval_defs chains2_def example_defs)
  have h4: "linkmap (fst (write_vrml example_JointModel0 init chains2)) ''A''
              = Some (example_link ''A'')"
    by (simp add: eval_defs chains2_def example_defs)
  have h5: "convertchildren (linkmap (fst (write_vrml example_JointModel0 init chains2)))
              chains2 (Name (Some ''A''))
            = Inr [NModel (example_joint ''j1'' ''A'' ''B'') (example_link ''B'') []]"
    by (simp add: eval_defs chains2_def example_defs)
  from write_root_policy [of cycle2 example_JointModel0 init] h1
  have "snd (write_vrml example_JointModel0 init cycle2) = Inl IndexError" by blast
  moreover from write_root_policy [of tree4 _ _ "Some ''root''"] h2
  have "findroot tree4 = [Some ''root'']" by blast
  moreover from write_root_policy [of chains2 example_JointModel0 init _ "''A''"] h3 h4 h5
  have "snd (write_vrml example_JointModel0 init chains2) =
     Inr (NModel (example_JointModel0\<lparr>joint.name := ''A'', jointType := Literal ''fixed''\<rparr>)
           (example_link ''A'')
           [NModel (example_joint ''j1'' ''A'' ''B'') (example_link ''B'') []])" by blast
  ultimately show ?thesis by blast
qed

theorem no_root_IndexError_counterexample:
  "findroot cycle2 = [] \<and> snd (write_vrml example_JointModel0 init cycle2) = Inl IndexError"
  by (simp add: eval_defs cycle2_def example_defs)




text \<open>
  Claim C5, as amended. On a fresh writer, when the root name, or the child name of a
  joint whose parent is the root, is not the name of a link of the model, the write
  fails with the unchecked \<^verbatim>\<open>KeyError\<close> of the dict lookup, carrying a name that is
  no link name of the model (there is no typed \<^verbatim>\<open>DanglingReference\<close>).
\<close>

theorem dangling_reference_KeyError:
  assumes "findroot mdata = root # rest"
    and "root \<notin> Some ` link.name ` set (links mdata)
         \<or> (\<exists>j\<in>set (joints mdata). parent j = root
               \<and> child j \<notin> Some ` link.name ` set (links mdata))"
  shows "\<exists>k. snd (write_vrml J init mdata) = Inl (KeyError k)
           \<and> k \<notin> Some ` link.name ` set (links mdata)"
proof -
  let ?lm = "fold (\<lambda>m lm. lm(link.name m \<mapsto> m)) (links mdata) Map.empty"
  have dom: "dom ?lm = link.name ` set (links mdata)"
    by (simp add: dom_fold_links)
  show ?thesis
  proof (cases "getitem ?lm root")
    case (Inl e)
    then have "e = KeyError root" "root \<notin> Some ` link.name ` set (links mdata)"
      using dom by (auto simp: getitem_Inl)
    with Inl assms(1) show ?thesis
      by (cases root) (auto simp: write_vrml_def init_def Let_def getitem_def)
  next
    case (Inr l)
    then obtain r where r: "root = Some r" "?lm r = Some l" by (auto simp: getitem_Inr)
    then have "root \<in> Some ` link.name ` set (links mdata)" using dom by blast
    with assms(2) have "\<exists>j\<in>set (findchildren mdata (Name root)). child j \<notin> Some ` dom ?lm"
      by (auto simp: set_findchildren dom)
    from loop_missing [OF this, of mdata "[]"]
    obtain k where "convertchildren ?lm mdata (Name root) = Inl (KeyError k)"
      "k \<notin> Some ` dom ?lm" by auto
    with assms(1) r Inr show ?thesis
      by (auto simp: write_vrml_def init_def Let_def dom)
  qed
qed

theorem dangling_reference_KeyError_witness:
  "\<exists>k. snd (write_vrml example_JointModel0 init dangling) = Inl (KeyError k)
       \<and> k \<notin> Some ` link.name ` set (links dangling)"
proof -
  have h1: "findroot dangling = Some ''A'' # []"
    by (simp add: eval_defs dangling_def example_defs)
  have h2: "Some ''A'' \<notin> Some ` link.name ` set (links dangling)
         \<or> (\<exists>j\<in>set (joints dangling). parent j = Some ''A''
               \<and> child j \<notin> Some ` link.name ` set (links dangling))"
    by (simp add: dangling_def example_defs)
  from dangling_reference_KeyError [OF h1 h2] show ?thesis .
qed

theorem dangling_child_unchecked_counterexample:
  "snd (write_vrml example_JointModel0 init dangling) = Inl (KeyError (Some ''Z''))"
  by (simp add: eval_defs dangling_def example_defs)

section \<open>The link table across calls\<close>

lemma fold_links_other:
  "k \<notin> link.name ` set ls \<Longrightarrow> fold (\<lambda>m lm. lm(link.name m \<mapsto> m)) ls lm0 k = lm0 k"
  by (induction ls arbitrary: lm0) auto

lemma fold_links_same:
  "k \<in> link.name ` set ls \<Longrightarrow>
   fold (\<lambda>m lm. lm(link.name m \<mapsto> m)) ls lm1 k = fold (\<lambda>m lm. lm(link.name m \<mapsto> m)) ls lm2 k"
proof (induction ls arbitrary: lm1 lm2)
  case Nil
  then show ?case by simp
next
  case (Cons l ls)
  show ?case
  proof (cases "k \<in> link.name ` set ls")
    case True
    from Cons.IH [OF True] show ?thesis by simp
  next
    case False
    with Cons.prems have k: "k = link.name l" by auto
    from fold_links_other [OF False, of "lm1(link.name l \<mapsto> l)"]
         fold_links_other [OF False, of "lm2(link.name l \<mapsto> l)"] k
    have "fold (\<lambda>m lm. lm(link.name m \<mapsto> m)) ls (lm1(link.name l \<mapsto> l)) k
            = fold (\<lambda>m lm. lm(link.name m \<mapsto> m)) ls (lm2(link.name l \<mapsto> l)) k"
      by simp
    then show ?thesis by (simp del: fun_upd_apply)
  qed
qed

lemma loop_cong:
  "\<forall>j\<in>set js. getitem lm1 (child j) = getitem lm2 (child j) \<Longrightarrow>
   convertchildren_loop lm1 mdata js acc = convertchildren_loop lm2 mdata js acc"
  by (induction js arbitrary: acc) (simp_all add: findchildren_LinkObj split: sum.splits)

text \<open>
  When every root candidate and every child name of a joint is the name of a link of
  the model, each lookup finds the entry the current call has just stored, and the
  outcome does not depend on what the writer held before.
\<close>

lemma write_vrml_state_independent:
  assumes "set (findroot mdata) \<subseteq> Some ` link.name ` set (links mdata)"
    and "\<forall>j\<in>set (joints mdata). child j \<in> Some ` link.name ` set (links mdata)"
  shows "snd (write_vrml J self mdata) = snd (write_vrml J init mdata)"
proof -
  let ?f = "\<lambda>lm0. fold (\<lambda>m lm. lm(link.name m \<mapsto> m)) (links mdata) lm0"
  have same: "getitem (?f (linkmap self)) k = getitem (?f Map.empty) k"
    if "k \<in> Some ` link.name ` set (links mdata)" for k
    using that fold_links_same [of _ "links mdata" "linkmap self" Map.empty]
    by (auto simp: getitem_def)
  have "convertchildren (?f (linkmap self)) mdata n = convertchildren (?f Map.empty) mdata n"
    for n
  proof (cases n)
    case (Name x)
    have "\<forall>j\<in>set (findchildren mdata (Name x)).
            getitem (?f (linkmap self)) (child j) = getitem (?f Map.empty) (child j)"
      using assms(2) same by (auto simp: set_findchildren)
    from loop_cong [OF this] Name show ?thesis by simp
  next
    case (LinkObj l)
    then show ?thesis by (simp add: findchildren_LinkObj)
  qed
  moreover have "getitem (?f (linkmap self)) r = getitem (?f Map.empty) r"
    if "findroot mdata = r # rest" for r rest
    using that assms(1) same by auto
  ultimately show ?thesis
    by (auto simp: write_vrml_def init_def Let_def split: list.splits option.splits sum.splits)
qed

text \<open>
  Claim C9. The outcome of a write is the same on a fresh writer and on a writer that
  has written another model before. The code never empties \<^verbatim>\<open>self._linkmap\<close>: a
  fresh writer fails on the model \<open>dangling\<close> with \<^verbatim>\<open>KeyError\<close> for Z, and a writer
  that has written \<open>with_Z\<close> before returns a tree for it, whose child link Z is a
  link of the earlier model.
\<close>

theorem stale_linkmap_changes_outcome:
  "snd (write_vrml example_JointModel0 init dangling) = Inl (KeyError (Some ''Z'')) \<and>
   snd (write_vrml example_JointModel0 (fst (write_vrml example_JointModel0 init with_Z)) dangling)
     = Inr (NModel (example_JointModel0\<lparr>joint.name := ''A'', jointType := Literal ''fixed''\<rparr>)
           (example_link ''A'')
           [NModel (example_joint ''j1'' ''A'' ''Z'') (example_link ''Z'') []])"
  by (simp add: eval_defs dangling_def with_Z_def example_defs)


section \<open>Reading joints, inertia and meshes\<close>

text \<open>
  Claim C6. Joint-type parsing maps the strings \<^verbatim>\<open>fixed\<close>, \<^verbatim>\<open>revolute\<close>,
  \<^verbatim>\<open>prismatic\<close> and \<^verbatim>\<open>screw\<close> to their constants and no other string to any
  constant; every other string fails with an exception whose message is
  \<^verbatim>\<open>unsupported joint type: \<close> followed by the string itself.
\<close>

theorem readJointType_cases:
  "readJointType ''fixed'' = Inr J_FIXED \<and>
   readJointType ''revolute'' = Inr J_REVOLUTE \<and>
   readJointType ''prismatic'' = Inr J_PRISMATIC \<and>
   readJointType ''screw'' = Inr J_SCREW \<and>
   ((\<exists>t. readJointType d = Inr t) \<longleftrightarrow> d \<in> {''fixed'', ''revolute'', ''prismatic'', ''screw''}) \<and>
   (d \<notin> {''fixed'', ''revolute'', ''prismatic'', ''screw''} \<longrightarrow>
      readJointType d = Inl (Exception (''unsupported joint type: '' @ d)))"
  by (simp add: readJointType_def)

theorem readJointType_cases_witness:
  "readJointType ''teleport'' = Inl (Exception ''unsupported joint type: teleport'')"
  using readJointType_cases [of "''teleport''"] by simp

text \<open>
  Claim C7. For an inertia block whose six fields \<^verbatim>\<open>ixx\<close>, \<^verbatim>\<open>ixy\<close>, \<^verbatim>\<open>ixz\<close>,
  \<^verbatim>\<open>iyy\<close>, \<^verbatim>\<open>iyz\<close>, \<^verbatim>\<open>izz\<close> are present and are floats, \<^verbatim>\<open>readInertia\<close>
  returns the 3 by 3 tensor with the six scalars at their named positions, and the
  tensor is symmetric: the entry at \<open>i, j\<close> is the scalar stored at \<open>j, i\<close>. For the
  fields 1 to 6 the entries at 0, 1 and at 1, 0 are 2 and the entry at 2, 2 is 6.
\<close>

theorem readInertia_symmetric:
  assumes "find_float E d ''ixx'' = Inr ixx" and "find_float E d ''ixy'' = Inr ixy"
    and "find_float E d ''ixz'' = Inr ixz" and "find_float E d ''iyy'' = Inr iyy"
    and "find_float E d ''iyz'' = Inr iyz" and "find_float E d ''izz'' = Inr izz"
  shows "\<exists>tensor. readInertia E d = Inr tensor
           \<and> tensor = [[ixx, ixy, ixz], [ixy, iyy, iyz], [ixz, iyz, izz]]
           \<and> (\<forall>i<3. \<forall>j<3. tensor ! i ! j = tensor ! j ! i)"
proof -
  have sym: "[[ixx, ixy, ixz], [ixy, iyy, iyz], [ixz, iyz, izz]] ! i ! j
             = [[ixx, ixy, ixz], [ixy, iyy, iyz], [ixz, iyz, izz]] ! j ! i"
    if "i < 3" "j < 3" for i j :: nat
  proof -
    from that have "i = 0 \<or> i = 1 \<or> i = 2" "j = 0 \<or> j = 1 \<or> j = 2" by auto
    then show ?thesis by auto
  qed
  have "readInertia E d = Inr [[ixx, ixy, ixz], [ixy, iyy, iyz], [ixz, iyz, izz]]"
    using assms
    by (simp add: readInertia_def bindE_def zeros_def setitem2_def numeral_3_eq_3 numeral_2_eq_2)
  with sym show ?thesis by blast
qed

theorem readInertia_symmetric_witness:
  "\<exists>tensor. readInertia example_env inertia123456 = Inr tensor
      \<and> tensor ! 0 ! 1 = 2 \<and> tensor ! 1 ! 0 = 2 \<and> tensor ! 2 ! 2 = 6"
proof -
  have h: "find_float example_env inertia123456 ''ixx'' = Inr 1"
    "find_float example_env inertia123456 ''ixy'' = Inr 2"
    "find_float example_env inertia123456 ''ixz'' = Inr 3"
    "find_float example_env inertia123456 ''iyy'' = Inr 4"
    "find_float example_env inertia123456 ''iyz'' = Inr 5"
    "find_float example_env inertia123456 ''izz'' = Inr 6"
    by (simp_all add: sdf_defs example_env_def inertia123456_def leaf_def)
  from readInertia_symmetric [OF h] show ?thesis by auto
qed

text \<open>
  Claim C8. A joint whose axis carries dynamics and limits stores damping, friction
  and the limit pair as floats, like the components of the axis. The code stores the
  text of the elements: for the joint \<open>elbow\<close> the axis holds the floats 0, 0, 1,
  while damping, friction and the limits hold the strings \<^verbatim>\<open>'2'\<close>, \<^verbatim>\<open>'3'\<close>,
  \<^verbatim>\<open>'1'\<close> and \<^verbatim>\<open>'0'\<close>.
\<close>

theorem read_joint_dynamics_limit_are_text:
  "read_joint example_env example_JointModel0 elbow =
     Inr \<lparr>joint.name = ''elbow'', jointType = Const J_REVOLUTE, trans = PNone, rot = PNone,
          axis = PList [PFloat 0, PFloat 0, PFloat 1],
          damping = PStr ''2'', friction = PStr ''3'',
          limit = PList [PStr ''1'', PStr ''0''], parent = Some ''A'', child = Some ''B''\<rparr>"
  by (simp add: read_joint_def sdf_defs readJointType_def example_env_def elbow_def leaf_def
      example_JointModel0_def)

text \<open>
  Lowercasing maps exactly the eight capitalisations of \<^verbatim>\<open>.dae\<close> to \<^verbatim>\<open>.dae\<close>, and
  likewise for \<^verbatim>\<open>.stl\<close>.
\<close>

lemma lower_char_cases:
  "lower_char c = CHR ''d'' \<longleftrightarrow> c = CHR ''d'' \<or> c = CHR ''D''"
  "lower_char c = CHR ''a'' \<longleftrightarrow> c = CHR ''a'' \<or> c = CHR ''A''"
  "lower_char c = CHR ''e'' \<longleftrightarrow> c = CHR ''e'' \<or> c = CHR ''E''"
  "lower_char c = CHR ''s'' \<longleftrightarrow> c = CHR ''s'' \<or> c = CHR ''S''"
  "lower_char c = CHR ''t'' \<longleftrightarrow> c = CHR ''t'' \<or> c = CHR ''T''"
  "lower_char c = CHR ''l'' \<longleftrightarrow> c = CHR ''l'' \<or> c = CHR ''L''"
  "lower_char c = CHR ''.'' \<longleftrightarrow> c = CHR ''.''"
  by (auto simp: lower_char_def)

lemma lower_dae_iff:
  "lower e = ''.dae'' \<longleftrightarrow>
     (\<exists>d a x. e = [CHR ''.'', d, a, x] \<and> d \<in> {CHR ''d'', CHR ''D''}
        \<and> a \<in> {CHR ''a'', CHR ''A''} \<and> x \<in> {CHR ''e'', CHR ''E''})"
  by (auto simp: lower_def lower_char_cases map_eq_Cons_conv)

lemma lower_stl_iff:
  "lower e = ''.stl'' \<longleftrightarrow>
     (\<exists>s t l. e = [CHR ''.'', s, t, l] \<and> s \<in> {CHR ''s'', CHR ''S''}
        \<and> t \<in> {CHR ''t'', CHR ''T''} \<and> l \<in> {CHR ''l'', CHR ''L''})"
  by (auto simp: lower_def lower_char_cases map_eq_Cons_conv)

text \<open>
  Claim C10. For a mesh geometry whose file resolves to \<open>filename\<close> with the extension
  \<open>ext\<close>, the dispatch is on the lowercased extension: when \<open>ext\<close> is any
  capitalisation of \<^verbatim>\<open>.dae\<close> the data of the shape is what the Collada reader
  returns for the file, when it is any capitalisation of \<^verbatim>\<open>.stl\<close> what the STL
  reader returns, and otherwise the exception \<^verbatim>\<open>unsupported mesh format: \<close> is
  raised with the lowercased extension.
\<close>

theorem mesh_dispatch_lowercase:
  assumes "tag g = ''mesh''" and "find_text g ''uri'' = Inr uri"
    and "resolveFile E uri = Inr filename"
    and "ext = snd (splitext filename)"
  shows "(lower ext = ''.dae'' \<longrightarrow>
            readShape_geometry E m g =
              bindE (ColladaReader_read E filename)
                (\<lambda>d. Inr (m\<lparr>shapeType := Some SP_MESH, data := Some (MeshData d)\<rparr>)))
       \<and> (lower ext = ''.stl'' \<longrightarrow>
            readShape_geometry E m g =
              bindE (STLReader_read E filename)
                (\<lambda>d. Inr (m\<lparr>shapeType := Some SP_MESH, data := Some (MeshData d)\<rparr>)))
       \<and> (lower ext \<noteq> ''.dae'' \<and> lower ext \<noteq> ''.stl'' \<longrightarrow>
            readShape_geometry E m g
              = Inl (Exception (''unsupported mesh format: '' @ lower ext)))"
  using assms by (simp add: readShape_geometry_def bindE_def Let_def)

theorem mesh_dispatch_lowercase_witness:
  "readShape_geometry example_env example_ShapeModel0 (mesh_geometry ''meshes/Arm.DaE'')
     = Inr (example_ShapeModel0\<lparr>shapeType := Some SP_MESH,
              data := Some (MeshData ''collada meshes/Arm.DaE'')\<rparr>)
   \<and> readShape_geometry example_env example_ShapeModel0 (mesh_geometry ''meshes/Arm.v2.STL'')
     = Inr (example_ShapeModel0\<lparr>shapeType := Some SP_MESH,
              data := Some (MeshData ''stl meshes/Arm.v2.STL'')\<rparr>)
   \<and> readShape_geometry example_env example_ShapeModel0 (mesh_geometry ''meshes/Arm.OBJ'')
     = Inl (Exception ''unsupported mesh format: .obj'')"
proof -
  have t: "tag (mesh_geometry u) = ''mesh''" "find_text (mesh_geometry u) ''uri'' = Inr (Some u)"
    "resolveFile example_env (Some u) = Inr u" for u
    by (simp_all add: sdf_defs mesh_geometry_def leaf_def example_env_def)
  have e: "''.DaE'' = snd (splitext ''meshes/Arm.DaE'')"
    "''.STL'' = snd (splitext ''meshes/Arm.v2.STL'')"
    "''.OBJ'' = snd (splitext ''meshes/Arm.OBJ'')"
    by (simp_all add: splitext_def rfind_def)
  have l: "lower ''.DaE'' = ''.dae''" "lower ''.STL'' = ''.stl''" "lower ''.OBJ'' = ''.obj''"
    by (simp_all add: lower_def lower_char_def)
  from mesh_dispatch_lowercase [OF t e(1), of example_ShapeModel0]
       mesh_dispatch_lowercase [OF t e(2), of example_ShapeModel0]
       mesh_dispatch_lowercase [OF t e(3), of example_ShapeModel0] l
  show ?thesis by (simp add: bindE_def example_env_def)
qed

text \<open>The same dispatch seen through \<^verbatim>\<open>readShape\<close> on a whole visual element.\<close>

lemma readShape_example:
  "readShape example_env example_ShapeModel0 (mesh_visual ''meshes/Arm.DaE'')
     = Inr \<lparr>shape.name = ''arm'', shape.trans = PNone, shape.rot = PNone,
            shapeType = Some SP_MESH, data = Some (MeshData ''collada meshes/Arm.DaE'')\<rparr>"
  by (simp add: readShape_def readShape_geometry_def sdf_defs mesh_visual_def mesh_geometry_def
      leaf_def example_env_def example_ShapeModel0_def lower_def lower_char_def splitext_def
      rfind_def)

end
